theory Spec2Isabelle
  imports Complex_Main "HOL-Library.Sublist"
begin

section \<open>Values, exceptions and effects\<close>

text \<open>
  The client in \<^verbatim>\<open>utils/problems.py\<close> reads decoded JSON with plain subscripts.
  A decoded body is a Python value: \<^verbatim>\<open>None\<close>, a bool, an int, a float, a str, a list
  or a dict with string keys. A dict is an association list in insertion order, read
  with \<open>map_of\<close>. Floats are only passed through or tested for truth, so a float is
  represented by the number it denotes.
\<close>

datatype json =
    JNull
  | JBool bool
  | JInt int
  | JFloat real
  | JStr string
  | JList "json list"
  | JObj "(string \<times> json) list"

text \<open>The exceptions that the modelled code can raise or let through.\<close>

datatype exn =
    KeyError
  | IndexError
  | TypeError
  | AttributeError
  | ValueError
  | SyntaxError
  | RateLimitReached
  | OtherError string

text \<open>
  What the bot does besides returning: calls on \<^verbatim>\<open>bot.logger\<close> and
  \<^verbatim>\<open>bot.channel_logger\<close>, and the two kinds of sleep. \<open>Backoff_wait n\<close> is the
  sleep of the retry decorator, with \<open>n\<close> the value of the wait generator (the
  upper bound of the jittered sleep).
\<close>

datatype event =
    Logger_info
  | Logger_exception
  | Channel_rate_limited
  | Channel_forbidden
  | Sleep_random
  | Backoff_wait nat

text \<open>
  An HTTP response as the code reads it: the status, and what
  \<^verbatim>\<open>await response.json()\<close> gives, which is a value or an exception.
\<close>

record response =
  status :: int
  json_body :: "exn + json"

definition bindE :: "exn + 'a \<Rightarrow> ('a \<Rightarrow> exn + 'b) \<Rightarrow> exn + 'b" where
  "bindE m f = (case m of Inl e \<Rightarrow> Inl e | Inr v \<Rightarrow> f v)"

text \<open>\<^verbatim>\<open>x[key]\<close> with a string key.\<close>

fun getitem :: "json \<Rightarrow> string \<Rightarrow> exn + json" where
  "getitem (JObj kvs) k = (case map_of kvs k of None \<Rightarrow> Inl KeyError | Some v \<Rightarrow> Inr v)"
| "getitem _ k = Inl TypeError"

text \<open>\<^verbatim>\<open>x[0]\<close>. No key of a decoded JSON object is the integer 0.\<close>

fun getitem0 :: "json \<Rightarrow> exn + json" where
  "getitem0 (JList []) = Inl IndexError"
| "getitem0 (JList (v # vs)) = Inr v"
| "getitem0 (JStr []) = Inl IndexError"
| "getitem0 (JStr (c # cs)) = Inr (JStr [c])"
| "getitem0 (JObj kvs) = Inl KeyError"
| "getitem0 _ = Inl TypeError"

text \<open>Python's truth value of a decoded value.\<close>

fun truthy :: "json \<Rightarrow> bool" where
  "truthy JNull = False"
| "truthy (JBool b) = b"
| "truthy (JInt i) = (i \<noteq> 0)"
| "truthy (JFloat x) = (x \<noteq> 0)"
| "truthy (JStr s) = (s \<noteq> [])"
| "truthy (JList vs) = (vs \<noteq> [])"
| "truthy (JObj kvs) = (kvs \<noteq> [])"

text \<open>
  The \<^verbatim>\<open>try: ... except ValueError:\<close> block that every operation wraps around its
  subscripts: a \<open>ValueError\<close> is logged and the operation returns \<open>absent\<close>; any other
  exception leaves the function.
\<close>

definition except_ValueError :: "exn + 'a \<Rightarrow> 'a \<Rightarrow> event list \<times> (exn + 'a)" where
  "except_ValueError body absent =
     (case body of
        Inl e \<Rightarrow> if e = ValueError then ([Logger_exception], Inr absent) else ([], Inl e)
      | Inr v \<Rightarrow> ([], Inr v))"

section \<open>Slug queries\<close>

text \<open>
  Each operation posts its query and then reads one response; the model starts at the
  response. A bare \<^verbatim>\<open>return\<close> returns \<^verbatim>\<open>None\<close>, which is \<open>JNull\<close>: the slug
  that is returned is whatever value the body holds at that place.
\<close>

definition fetch_random_question :: "response \<Rightarrow> event list \<times> (exn + json)" where
  "fetch_random_question resp =
     (if status resp \<noteq> 200 then ([Logger_exception], Inr JNull)
      else case json_body resp of
        Inl e \<Rightarrow> ([], Inl e)
      | Inr response_data \<Rightarrow>
          except_ValueError
            (bindE (getitem response_data ''data'') (\<lambda>d.
             bindE (getitem d ''randomQuestion'') (\<lambda>q.
             getitem q ''titleSlug'')))
            JNull)"

definition fetch_daily_question :: "response \<Rightarrow> event list \<times> (exn + json)" where
  "fetch_daily_question resp =
     (if status resp \<noteq> 200 then ([Logger_exception], Inr JNull)
      else case json_body resp of
        Inl e \<Rightarrow> ([], Inl e)
      | Inr response_data \<Rightarrow>
          except_ValueError
            (bindE (getitem response_data ''data'') (\<lambda>d.
             bindE (getitem d ''challenge'') (\<lambda>c.
             bindE (getitem c ''question'') (\<lambda>q.
             getitem q ''titleSlug''))))
            JNull)"

definition search_question :: "response \<Rightarrow> event list \<times> (exn + json)" where
  "search_question resp =
     (if status resp \<noteq> 200 then ([Logger_exception], Inr JNull)
      else case json_body resp of
        Inl e \<Rightarrow> ([], Inl e)
      | Inr response_data \<Rightarrow>
          except_ValueError
            (bindE (getitem response_data ''data'') (\<lambda>d.
             bindE (getitem d ''problemsetQuestionList'') (\<lambda>questions_matched_list.
             if \<not> truthy questions_matched_list then Inr JNull
             else
               bindE (getitem questions_matched_list ''questions'') (\<lambda>qs.
               bindE (getitem0 qs) (\<lambda>q.
               getitem q ''titleSlug'')))))
            JNull)"

section \<open>Strings and regular-expression substitution\<close>

text \<open>
  A Python string is a list of \<open>char\<close>, one for each character; the markers and
  tags that the module looks for are ASCII, and text beyond Latin-1 is outside the model.
  \<open>find_first pat s\<close> splits \<open>s\<close> around the first occurrence of \<open>pat\<close>:
  the text before it and the text after it.
\<close>

fun find_first :: "string \<Rightarrow> string \<Rightarrow> (string \<times> string) option" where
  "find_first pat [] = (if pat = [] then Some ([], []) else None)"
| "find_first pat (c # cs) =
     (if prefix pat (c # cs) then Some ([], drop (length pat) (c # cs))
      else map_option (\<lambda>(a, b). (c # a, b)) (find_first pat cs))"

text \<open>\<^verbatim>\<open>s.find(sub)\<close>: the lowest index of \<open>sub\<close> in \<open>s\<close>, or \<open>-1\<close>.\<close>

definition py_find :: "string \<Rightarrow> string \<Rightarrow> int" where
  "py_find s sub = (case find_first sub s of None \<Rightarrow> - 1 | Some (a, b) \<Rightarrow> int (length a))"

text \<open>
  A bound of a slice of a sequence of length \<open>n\<close>: a negative bound counts from the
  end, and every bound is clamped to the sequence. \<^verbatim>\<open>s[start:stop]\<close> is
  \<open>py_slice\<close>, \<^verbatim>\<open>s[:stop]\<close> is \<open>py_slice_to\<close> and \<^verbatim>\<open>s[start:]\<close> is
  \<open>py_slice_from\<close>.
\<close>

definition slice_bound :: "nat \<Rightarrow> int \<Rightarrow> nat" where
  "slice_bound n i = (if i < 0 then nat (max 0 (int n + i)) else min n (nat i))"

definition py_slice :: "string \<Rightarrow> int \<Rightarrow> int \<Rightarrow> string" where
  "py_slice s start stop =
     (let a = slice_bound (length s) start; b = slice_bound (length s) stop
      in take (b - a) (drop a s))"

definition py_slice_to :: "string \<Rightarrow> int \<Rightarrow> string" where
  "py_slice_to s stop = take (slice_bound (length s) stop) s"

definition py_slice_from :: "string \<Rightarrow> int \<Rightarrow> string" where
  "py_slice_from s start = drop (slice_bound (length s) start) s"

text \<open>
  \<^verbatim>\<open>re.sub(pattern, repl, s)\<close> scans \<open>s\<close> from the left. Where the pattern matches,
  the match \<open>g\<close> (group 0) is replaced by \<open>repl g\<close> and the scan goes on behind it;
  elsewhere one character is copied. \<open>m t\<close> is the match of the pattern at the start of
  \<open>t\<close>, if there is one; the counter holds how many characters of the last match are
  still to be skipped. No pattern of this module matches the empty string.
  \<^verbatim>\<open>s.replace(old, new)\<close> is the same scan with a literal pattern.
\<close>

fun re_sub_from :: "(string \<Rightarrow> string option) \<Rightarrow> (string \<Rightarrow> string) \<Rightarrow> nat \<Rightarrow> string \<Rightarrow> string" where
  "re_sub_from m repl k [] = []"
| "re_sub_from m repl (Suc k) (c # cs) = re_sub_from m repl k cs"
| "re_sub_from m repl 0 (c # cs) =
     (case m (c # cs) of
        None \<Rightarrow> c # re_sub_from m repl 0 cs
      | Some g \<Rightarrow> repl g @ re_sub_from m repl (length g - 1) cs)"

definition re_sub :: "(string \<Rightarrow> string option) \<Rightarrow> (string \<Rightarrow> string) \<Rightarrow> string \<Rightarrow> string" where
  "re_sub m repl s = re_sub_from m repl 0 s"

definition literal :: "string \<Rightarrow> string \<Rightarrow> string option" where
  "literal pat t = (if prefix pat t then Some pat else None)"

definition replace :: "string \<Rightarrow> string \<Rightarrow> string \<Rightarrow> string" where
  "replace old new s = re_sub (literal old) (\<lambda>g. new) s"

section \<open>HTML normalisation\<close>

text \<open>
  The pattern \<^verbatim>\<open>(<code>|<pre>)(.*?)(<[/]code>|<[/]pre>)\<close> with \<^verbatim>\<open>re.DOTALL\<close>: an
  opening tag, then the shortest text up to a closing tag of either kind.
\<close>

fun first_closer :: "string \<Rightarrow> (string \<times> string) option" where
  "first_closer [] = None"
| "first_closer (c # cs) =
     (if prefix ''</code>'' (c # cs) then Some ([], ''</code>'')
      else if prefix ''</pre>'' (c # cs) then Some ([], ''</pre>'')
      else map_option (\<lambda>(body, closer). (c # body, closer)) (first_closer cs))"

definition match_code_block :: "string \<Rightarrow> string option" where
  "match_code_block t =
     (if prefix ''<code>'' t then
        map_option (\<lambda>(body, closer). ''<code>'' @ body @ closer) (first_closer (drop 6 t))
      else if prefix ''<pre>'' t then
        map_option (\<lambda>(body, closer). ''<pre>'' @ body @ closer) (first_closer (drop 5 t))
      else None)"

text \<open>The replacement function of the first substitution, applied to group 0.\<close>

definition flatten_markup :: "string \<Rightarrow> string" where
  "flatten_markup g =
     replace ''</u>'' [] (replace ''<u>'' []
       (replace ''</strong>'' [] (replace ''<strong>'' []
         (replace ''</em>'' [] (replace ''<em>'' []
           (replace ''</b>'' [] (replace ''<b>'' [] g)))))))"

text \<open>
  \<^verbatim>\<open><img.*?src="(.*?)".*?>\<close> and \<^verbatim>\<open><style.*?>.*?</style>\<close> with
  \<^verbatim>\<open>re.DOTALL\<close>. Every \<^verbatim>\<open>.*?\<close> takes the shortest text that lets the rest match,
  which is the text up to the first occurrence of what follows it: if the rest cannot
  match behind the first occurrence, it cannot match behind a later one.
\<close>

definition match_img :: "string \<Rightarrow> string option" where
  \<open>match_img t =
     (if prefix ''<img'' t then
        (case find_first ''src="'' (drop 4 t) of
           None \<Rightarrow> None
         | Some (a, r1) \<Rightarrow>
            (case find_first ''"'' r1 of
               None \<Rightarrow> None
             | Some (b, r2) \<Rightarrow>
                (case find_first ''>'' r2 of
                   None \<Rightarrow> None
                 | Some (c, r3) \<Rightarrow> Some (''<img'' @ a @ ''src="'' @ b @ ''"'' @ c @ ''>''))))
      else None)\<close>

definition match_style :: "string \<Rightarrow> string option" where
  "match_style t =
     (if prefix ''<style'' t then
        (case find_first ''>'' (drop 6 t) of
           None \<Rightarrow> None
         | Some (a, r1) \<Rightarrow>
            (case find_first ''</style>'' r1 of
               None \<Rightarrow> None
             | Some (b, r2) \<Rightarrow> Some (''<style'' @ a @ ''>'' @ b @ ''</style>'')))
      else None)"

definition subsitutions :: "((string \<Rightarrow> string option) \<times> string) list" where
  "subsitutions =
     [(literal ''<sup>'', ''^''),
      (literal ''</sup>'', []),
      (match_img, []),
      (match_style, []),
      (literal ''&nbsp;'', '' '')]"

definition newline :: char where
  "newline = CHR 0x0A"

text \<open>
  The value of \<^verbatim>\<open>html\<close> when the converter is called: the first substitution,
  then the loop over \<^verbatim>\<open>subsitutions\<close>.
\<close>

definition converter_input :: "string \<Rightarrow> string" where
  "converter_input html =
     foldl (\<lambda>h (pattern, replacement). re_sub pattern (\<lambda>g. replacement) h)
       (re_sub match_code_block flatten_markup html) subsitutions"

text \<open>
  \<^verbatim>\<open>markdownify.markdownify\<close> is a third-party converter and no part of this
  repository: it is the parameter \<open>md\<close>.
\<close>

definition html_to_markdown :: "(string \<Rightarrow> string) \<Rightarrow> string \<Rightarrow> string" where
  "html_to_markdown md html =
     (let markdown = md (converter_input html)
      in re_sub (literal [newline, newline]) (\<lambda>g. [newline]) markdown)"

definition example_one_marker :: string where
  \<open>example_one_marker = ''<p><strong class="example">Example 1:</strong></p>''\<close>

definition example_two_marker :: string where
  \<open>example_two_marker = ''<p><strong class="example">Example 2:</strong></p>''\<close>

definition follow_up_marker :: string where
  "follow_up_marker = ''<strong>Follow up:</strong> ''"

definition parse_content :: "(string \<Rightarrow> string) \<Rightarrow> string \<Rightarrow> string \<times> string \<times> string option" where
  "parse_content md content =
     (let position_example_one = py_find content example_one_marker;
          position_example_two = py_find content example_two_marker;
          position_follow_up = py_find content follow_up_marker;
          description = html_to_markdown md (py_slice_to content position_example_one);
          example_one = html_to_markdown md
            (py_slice content (position_example_one + int (length example_one_marker))
               position_example_two);
          follow_up =
            (if position_follow_up \<noteq> - 1
             then Some (html_to_markdown md
               (py_slice_from content (position_follow_up + int (length follow_up_marker))))
             else None)
      in (description, example_one, follow_up))"

section \<open>Collaborators\<close>

text \<open>
  What the module calls and this repository's sources do not hold:
  \<^item> \<open>markdownify\<close>: the third-party HTML to Markdown converter;
  \<^item> \<open>literal_eval\<close>: \<^verbatim>\<open>ast.literal_eval\<close> on a string;
  \<^item> \<open>fetch_rating\<close>: \<^verbatim>\<open>bot.ratings.fetch_rating\<close>, the rating lookup by title;
  \<^item> \<open>py_int\<close>: Python's \<^verbatim>\<open>int(...)\<close>;
  \<^item> \<open>convert_to_score\<close>: the scoring function of \<^verbatim>\<open>utils.common\<close>.
  They are parameters of the model; a call that can raise returns a sum.
\<close>

record env =
  markdownify :: "string \<Rightarrow> string"
  literal_eval :: "string \<Rightarrow> exn + json"
  fetch_rating :: "json \<Rightarrow> json"
  py_int :: "json \<Rightarrow> exn + int"
  convert_to_score :: "json \<Rightarrow> json \<Rightarrow> json \<Rightarrow> exn + int"

section \<open>Question metadata\<close>

text \<open>
  The dataclasses hold what the decoded body holds: Python checks no field type.
\<close>

record question_info =
  premium :: json
  question_id :: json
  difficulty :: json
  title :: json
  link :: string
  total_accepted :: json
  total_submission :: json
  ac_rate :: json
  question_rating :: "int option"
  description :: string
  example_one :: string
  follow_up :: "string option"

text \<open>
  \<^verbatim>\<open>ast.literal_eval(x)\<close>: a string is parsed; any other decoded value is no
  syntax node and raises \<open>ValueError\<close>.
\<close>

definition ast_literal_eval :: "env \<Rightarrow> json \<Rightarrow> exn + json" where
  "ast_literal_eval e x = (case x of JStr s \<Rightarrow> literal_eval e s | _ \<Rightarrow> Inl ValueError)"

text \<open>The locals that the \<^verbatim>\<open>try\<close> block of \<^verbatim>\<open>fetch_question_info\<close> binds.\<close>

record question_fields =
  f_question_id :: json
  f_difficulty :: json
  f_title :: json
  f_is_paid_only :: json
  f_content :: json
  f_total_accepted :: json
  f_total_submission :: json
  f_ac_rate :: json

definition read_question :: "env \<Rightarrow> json \<Rightarrow> exn + question_fields" where
  "read_question e response_data =
     bindE (getitem response_data ''data'') (\<lambda>d.
     bindE (getitem d ''question'') (\<lambda>question.
     bindE (getitem question ''questionFrontendId'') (\<lambda>qid.
     bindE (getitem question ''difficulty'') (\<lambda>dif.
     bindE (getitem question ''title'') (\<lambda>tit.
     bindE (getitem question ''isPaidOnly'') (\<lambda>is_paid_only.
     bindE (if \<not> truthy is_paid_only then getitem question ''content'' else Inr (JStr []))
       (\<lambda>content.
     bindE (bindE (getitem question ''stats'') (ast_literal_eval e)) (\<lambda>stats.
     bindE (getitem stats ''totalAccepted'') (\<lambda>acc.
     bindE (getitem stats ''totalSubmission'') (\<lambda>sub.
     bindE (getitem stats ''acRate'') (\<lambda>rate.
     Inr \<lparr>f_question_id = qid, f_difficulty = dif, f_title = tit,
          f_is_paid_only = is_paid_only, f_content = content,
          f_total_accepted = acc, f_total_submission = sub, f_ac_rate = rate\<rparr>)))))))))))"

text \<open>The rating lookup behind the \<^verbatim>\<open>try\<close> block.\<close>

definition lookup_rating :: "env \<Rightarrow> question_fields \<Rightarrow> exn + int option" where
  "lookup_rating e f =
     (if \<not> truthy (f_is_paid_only f) then
        (let rating = fetch_rating e (f_title f)
         in if truthy rating then bindE (py_int e rating) (\<lambda>i. Inr (Some i)) else Inr None)
      else Inr None)"

text \<open>
  \<^verbatim>\<open>parse_content(content)\<close> on the value bound to \<^verbatim>\<open>content\<close>: only a string has
  the method \<^verbatim>\<open>find\<close>.
\<close>

definition parse_content_of :: "env \<Rightarrow> json \<Rightarrow> exn + string \<times> string \<times> string option" where
  "parse_content_of e content =
     (case content of JStr s \<Rightarrow> Inr (parse_content (markdownify e) s) | _ \<Rightarrow> Inl AttributeError)"

definition build_question_info :: "env \<Rightarrow> string \<Rightarrow> question_fields \<Rightarrow> exn + question_info option" where
  "build_question_info e question_title_slug f =
     bindE (lookup_rating e f) (\<lambda>rating.
     bindE (parse_content_of e (f_content f)) (\<lambda>(des, ex1, fol).
     Inr (Some \<lparr>premium = f_is_paid_only f,
                question_id = f_question_id f,
                difficulty = f_difficulty f,
                title = f_title f,
                link = ''https://leetcode.com/problems/'' @ question_title_slug,
                total_accepted = f_total_accepted f,
                total_submission = f_total_submission f,
                ac_rate = f_ac_rate f,
                question_rating = rating,
                description = des,
                example_one = ex1,
                follow_up = fol\<rparr>)))"

definition fetch_question_info :: "env \<Rightarrow> response \<Rightarrow> string \<Rightarrow> event list \<times> (exn + question_info option)" where
  "fetch_question_info e resp question_title_slug =
     (if status resp \<noteq> 200 then ([Logger_info, Logger_exception], Inr None)
      else case json_body resp of
        Inl x \<Rightarrow> ([Logger_info], Inl x)
      | Inr response_data \<Rightarrow>
         (case read_question e response_data of
            Inl x \<Rightarrow>
              if x = ValueError then ([Logger_info, Logger_exception], Inr None)
              else ([Logger_info], Inl x)
          | Inr f \<Rightarrow> ([Logger_info], build_question_info e question_title_slug f)))"

section \<open>User statistics\<close>

record submissions =
  easy :: json
  medium :: json
  hard :: json
  score :: int

record user_stats =
  real_name :: json
  submissions :: submissions

text \<open>
  \<^verbatim>\<open>iter(x)\<close> for a generator over a decoded value: a list gives its items, a dict
  its keys, a string its characters; nothing else is iterable.
\<close>

fun py_iter :: "json \<Rightarrow> exn + json list" where
  "py_iter (JList vs) = Inr vs"
| "py_iter (JObj kvs) = Inr (map (\<lambda>kv. JStr (fst kv)) kvs)"
| "py_iter (JStr s) = Inr (map (\<lambda>c. JStr [c]) s)"
| "py_iter _ = Inl TypeError"

text \<open>
  \<^verbatim>\<open>next((item["count"] for item in items if item["difficulty"] == name), 0)\<close>:
  the generator is lazy, so the items behind the first match are never read.
\<close>

fun next_count :: "string \<Rightarrow> json list \<Rightarrow> exn + json" where
  "next_count name [] = Inr (JInt 0)"
| "next_count name (item # items) =
     bindE (getitem item ''difficulty'') (\<lambda>d.
       if d = JStr name then getitem item ''count'' else next_count name items)"

definition count_of :: "string \<Rightarrow> json \<Rightarrow> exn + json" where
  "count_of name ac_submission_num = bindE (py_iter ac_submission_num) (next_count name)"

text \<open>
  For stating results: when the items of the list hold the difficulty names and counts
  \<open>entries\<close>, in this order, the count listed for a name is the count of the first
  entry with that name, and 0 when there is none.
\<close>

definition listed_count :: "(string \<times> json) list \<Rightarrow> string \<Rightarrow> json" where
  "listed_count entries dn = (case map_of entries dn of None \<Rightarrow> JInt 0 | Some c \<Rightarrow> c)"

text \<open>
  The \<^verbatim>\<open>try\<close> block of \<^verbatim>\<open>fetch_problems_solved_and_rank\<close>: \<open>None\<close> is the
  \<^verbatim>\<open>return None\<close> for a missing user, otherwise the name and the three counts.
\<close>

definition read_user :: "json \<Rightarrow> exn + (json \<times> json \<times> json \<times> json) option" where
  "read_user response_data =
     bindE (getitem response_data ''data'') (\<lambda>d.
     bindE (getitem d ''matchedUser'') (\<lambda>matched_user.
     if \<not> truthy matched_user then Inr None
     else
       bindE (bindE (getitem matched_user ''profile'') (\<lambda>p. getitem p ''realName'')) (\<lambda>name.
       bindE (getitem matched_user ''submitStatsGlobal'') (\<lambda>submit_stats_global.
       bindE (getitem submit_stats_global ''acSubmissionNum'') (\<lambda>ac_submission_num.
       bindE (count_of ''Easy'' ac_submission_num) (\<lambda>easy_count.
       bindE (count_of ''Medium'' ac_submission_num) (\<lambda>medium_count.
       bindE (count_of ''Hard'' ac_submission_num) (\<lambda>hard_count.
       Inr (Some (name, easy_count, medium_count, hard_count))))))))))"

definition build_user_stats :: "env \<Rightarrow> json \<times> json \<times> json \<times> json \<Rightarrow> exn + user_stats option" where
  "build_user_stats e = (\<lambda>(name, easy_count, medium_count, hard_count).
     bindE (convert_to_score e easy_count medium_count hard_count) (\<lambda>sc.
     Inr (Some \<lparr>real_name = name,
                submissions = \<lparr>easy = easy_count, medium = medium_count,
                                hard = hard_count, score = sc\<rparr>\<rparr>)))"

text \<open>
  One run of the body of \<^verbatim>\<open>fetch_problems_solved_and_rank\<close>, which posts one
  request and reads its response. The run is sequential: the semaphore that the body
  holds meanwhile concerns other callers and has no part in it.
\<close>

definition fetch_attempt :: "env \<Rightarrow> response \<Rightarrow> event list \<times> (exn + user_stats option)" where
  "fetch_attempt e resp =
     (if status resp = 200 then
        (case json_body resp of
           Inl x \<Rightarrow> ([], Inl x)
         | Inr response_data \<Rightarrow>
            (case read_user response_data of
               Inl x \<Rightarrow>
                 if x = ValueError then ([Sleep_random, Logger_exception], Inr None)
                 else ([Sleep_random], Inl x)
             | Inr None \<Rightarrow> ([Sleep_random], Inr None)
             | Inr (Some counts) \<Rightarrow> ([Sleep_random], build_user_stats e counts)))
      else if status resp = 429 then ([Channel_rate_limited], Inl RateLimitReached)
      else if status resp = 403 then ([Logger_exception, Channel_forbidden], Inr None)
      else ([Logger_exception], Inr None))"

text \<open>
  \<^verbatim>\<open>backoff.expo\<close> with its defaults yields 1, 2, 4, ...; \<^verbatim>\<open>backoff.on_exception\<close>
  with no \<^verbatim>\<open>max_tries\<close>, \<^verbatim>\<open>max_time\<close> or \<^verbatim>\<open>giveup\<close> calls the target again
  whenever it raised the given exception, after a sleep bounded by the next value of
  the wait generator, and returns or raises whatever else the target does. The
  backend is the sequence of responses to the successive requests; \<open>tries\<close> counts the
  requests made. The loop need not end, so the result is an option.
\<close>

definition expo :: "nat \<Rightarrow> nat" where
  "expo n = 2 ^ n"

partial_function (option) on_exception ::
  "(nat \<Rightarrow> nat) \<Rightarrow> exn \<Rightarrow> (response \<Rightarrow> event list \<times> (exn + 'a)) \<Rightarrow> (nat \<Rightarrow> response) \<Rightarrow>
   nat \<Rightarrow> event list \<Rightarrow> (event list \<times> (exn + 'a) \<times> nat) option" where
  "on_exception wait_gen exc target backend tries trace =
     (if snd (target (backend tries)) = Inl exc
      then on_exception wait_gen exc target backend (Suc tries)
             (trace @ fst (target (backend tries)) @ [Backoff_wait (wait_gen tries)])
      else Some (trace @ fst (target (backend tries)), snd (target (backend tries)), Suc tries))"

definition fetch_problems_solved_and_rank ::
  "env \<Rightarrow> (nat \<Rightarrow> response) \<Rightarrow> (event list \<times> (exn + user_stats option) \<times> nat) option" where
  "fetch_problems_solved_and_rank e backend =
     on_exception expo RateLimitReached (fetch_attempt e) backend 0 []"

section \<open>Sample inputs\<close>

text \<open>
  Concrete collaborators and responses, used to run the model: a converter that copies
  its input, a literal evaluator that knows one statistics string, no ratings, and a
  scoring function that weighs the three counts.
\<close>

definition sample_stats :: json where
  "sample_stats = JObj [(''totalAccepted'', JStr ''1.2M''), (''totalSubmission'', JStr ''2.4M''),
                        (''acRate'', JStr ''50.0%'')]"

definition sample_stats_text :: string where
  \<open>sample_stats_text =
     ''{"totalAccepted": "1.2M", "totalSubmission": "2.4M", "acRate": "50.0%"}''\<close>

definition sample_env :: env where
  "sample_env =
     \<lparr>markdownify = (\<lambda>h. h),
      literal_eval = (\<lambda>s. if s = sample_stats_text then Inr sample_stats else Inl SyntaxError),
      fetch_rating = (\<lambda>t. JNull),
      py_int = (\<lambda>v. case v of JInt i \<Rightarrow> Inr i | _ \<Rightarrow> Inl TypeError),
      convert_to_score = (\<lambda>a b c. case (a, b, c) of
          (JInt x, JInt y, JInt z) \<Rightarrow> Inr (x + 3 * y + 7 * z)
        | _ \<Rightarrow> Inl TypeError)\<rparr>"

definition sample_user :: json where
  "sample_user =
     JObj [(''data'', JObj [(''matchedUser'', JObj
       [(''profile'', JObj [(''realName'', JStr ''Ada'')]),
        (''submitStatsGlobal'', JObj [(''acSubmissionNum'', JList
           [JObj [(''difficulty'', JStr ''All''), (''count'', JInt 3)],
            JObj [(''difficulty'', JStr ''Easy''), (''count'', JInt 2)],
            JObj [(''difficulty'', JStr ''Medium''), (''count'', JInt 1)]])])])])]"

definition sample_backend :: "nat \<Rightarrow> response" where
  "sample_backend i =
     (if i = 0 then \<lparr>status = 429, json_body = Inr JNull\<rparr>
      else \<lparr>status = 200, json_body = Inr sample_user\<rparr>)"

definition sample_premium :: json where
  "sample_premium =
     JObj [(''data'', JObj [(''question'', JObj
       [(''questionFrontendId'', JStr ''156''),
        (''title'', JStr ''Binary Tree Upside Down''),
        (''difficulty'', JStr ''Medium''),
        (''content'', JNull),
        (''stats'', JStr sample_stats_text),
        (''isPaidOnly'', JBool True)])])]"

definition sample_premium_info :: question_info where
  "sample_premium_info =
     \<lparr>premium = JBool True, question_id = JStr ''156'', difficulty = JStr ''Medium'',
      title = JStr ''Binary Tree Upside Down'',
      link = ''https://leetcode.com/problems/binary-tree-upside-down'',
      total_accepted = JStr ''1.2M'', total_submission = JStr ''2.4M'',
      ac_rate = JStr ''50.0%'', question_rating = None,
      description = [], example_one = [], follow_up = None\<rparr>"


definition sample_new_user :: json where
  "sample_new_user =
     JObj [(''data'', JObj [(''matchedUser'', JObj
       [(''profile'', JObj [(''realName'', JStr ''Bob'')]),
        (''submitStatsGlobal'', JObj [(''acSubmissionNum'', JList
           [JObj [(''difficulty'', JStr ''All''), (''count'', JInt 0)]])])])])]"

definition sample_ok_backend :: "nat \<Rightarrow> response" where
  "sample_ok_backend i = \<lparr>status = 200, json_body = Inr sample_new_user\<rparr>"

definition sample_forbidden_backend :: "nat \<Rightarrow> response" where
  "sample_forbidden_backend i = \<lparr>status = 403, json_body = Inr JNull\<rparr>"

section \<open>Results\<close>

subsection \<open>Field access: what the handlers catch\<close>

lemma except_ValueError_passes:
  "x \<noteq> ValueError \<Longrightarrow> except_ValueError (Inl x) absent = ([], Inl x)"
  by (simp add: except_ValueError_def)

lemma search_question_first_slug:
  assumes "getitem response_data ''data'' = Inr d"
    and "getitem d ''problemsetQuestionList'' = Inr questions_matched_list"
    and "getitem questions_matched_list ''questions'' = Inr (JList (q # qs))"
    and "getitem q ''titleSlug'' = Inr slug"
  shows "search_question \<lparr>status = 200, json_body = Inr response_data\<rparr> = ([], Inr slug)"
proof -
  from assms(3) have "truthy questions_matched_list"
    by (cases questions_matched_list) auto
  with assms show ?thesis
    by (simp add: search_question_def except_ValueError_def bindE_def)
qed

text \<open>
  C1. A response with status 200 whose body lacks an expected field should be logged
  and give an absent result, with no exception reaching the caller. The handlers catch
  \<open>ValueError\<close> only, while a failed subscript raises \<open>KeyError\<close> (a missing key) or
  \<open>TypeError\<close> (a subscript on \<^verbatim>\<open>None\<close>). On the body \<^verbatim>\<open>{"data": {}}\<close> each of the
  five operations raises \<open>KeyError\<close> and logs no failure; on
  \<^verbatim>\<open>{"data": {"question": null}}\<close>, the answer for an unknown slug,
  \<^verbatim>\<open>fetch_question_info\<close> raises \<open>TypeError\<close>.
\<close>

theorem missing_field_raises:
  "fetch_random_question \<lparr>status = 200, json_body = Inr (JObj [(''data'', JObj [])])\<rparr>
     = ([], Inl KeyError)
   \<and> fetch_daily_question \<lparr>status = 200, json_body = Inr (JObj [(''data'', JObj [])])\<rparr>
     = ([], Inl KeyError)
   \<and> search_question \<lparr>status = 200, json_body = Inr (JObj [(''data'', JObj [])])\<rparr>
     = ([], Inl KeyError)
   \<and> fetch_question_info e \<lparr>status = 200, json_body = Inr (JObj [(''data'', JObj [])])\<rparr> slug
     = ([Logger_info], Inl KeyError)
   \<and> fetch_problems_solved_and_rank e
       (\<lambda>i. \<lparr>status = 200, json_body = Inr (JObj [(''data'', JObj [])])\<rparr>)
     = Some ([Sleep_random], Inl KeyError, 1)
   \<and> fetch_question_info e
       \<lparr>status = 200, json_body = Inr (JObj [(''data'', JObj [(''question'', JNull)])])\<rparr> slug
     = ([Logger_info], Inl TypeError)"
  by (simp add: fetch_random_question_def fetch_daily_question_def search_question_def
      fetch_question_info_def read_question_def fetch_problems_solved_and_rank_def
      on_exception.simps fetch_attempt_def read_user_def except_ValueError_def bindE_def)

text \<open>
  C2. With \<^verbatim>\<open>problemsetQuestionList\<close> present, \<^verbatim>\<open>search_question\<close> should return the
  slug of the first question and an absent result for an empty result list. The first
  half is \<open>search_question_first_slug\<close>. The emptiness test of the code is on the object
  that holds the list, not on the list: on \<^verbatim>\<open>{"questions": []}\<close> the subscript
  \<^verbatim>\<open>[0]\<close> raises \<open>IndexError\<close>, which no handler catches.
\<close>

theorem search_question_empty_list_raises:
  "search_question \<lparr>status = 200, json_body = Inr (JObj [(''data'',
      JObj [(''problemsetQuestionList'', JObj [(''questions'', JList [])])])])\<rparr>
   = ([], Inl IndexError)"
  by (simp add: search_question_def except_ValueError_def bindE_def)

subsection \<open>Sections and normalisation\<close>

lemma converter_input_empty: "converter_input [] = []"
  by (simp add: converter_input_def re_sub_def subsitutions_def)

lemma html_to_markdown_empty: "md [] = [] \<Longrightarrow> html_to_markdown md [] = []"
  by (simp add: html_to_markdown_def converter_input_empty re_sub_def)

lemma parse_content_empty:
  "parse_content md [] = (html_to_markdown md [], html_to_markdown md [], None)"
  by (simp add: parse_content_def py_find_def example_one_marker_def example_two_marker_def
      follow_up_marker_def py_slice_def py_slice_to_def py_slice_from_def slice_bound_def)

lemma parse_content_marker_absent:
  assumes "find_first example_one_marker content = None"
  shows "fst (parse_content md content) = html_to_markdown md (butlast content)"
    and "fst (snd (parse_content md content))
           = html_to_markdown md (py_slice content 49 (py_find content example_two_marker))"
proof -
  have "nat (max 0 (int (length content) - 1)) = length content - 1" by simp
  then have "py_slice_to content (- 1) = butlast content"
    by (simp add: py_slice_to_def slice_bound_def butlast_conv_take)
  with assms show "fst (parse_content md content) = html_to_markdown md (butlast content)"
    by (simp add: parse_content_def py_find_def Let_def)
  from assms show "fst (snd (parse_content md content))
           = html_to_markdown md (py_slice content 49 (py_find content example_two_marker))"
    by (simp add: parse_content_def py_find_def Let_def example_one_marker_def)
qed

text \<open>
  C3. For a content without the \<^verbatim>\<open>Example 1:\<close> marker, \<^verbatim>\<open>parse_content\<close> should
  give the whole content, normalised, as description and an empty first example. The
  code slices with the \<open>-1\<close> that \<^verbatim>\<open>find\<close> returns: the description is the content
  without its last character, and the first example is \<^verbatim>\<open>content[49:-1]\<close>. Only the
  follow-up position is tested against \<open>-1\<close>. This holds for every content without
  the marker (\<open>parse_content_marker_absent\<close>); here the content is a statement whose
  example header has the older form, without the \<^verbatim>\<open>class\<close> attribute.
\<close>

theorem parse_content_without_marker:
  "parse_content md
     ''<p>Return the sum of two integers.</p><p><strong>Example:</strong></p><pre>1 2</pre>''
   = (html_to_markdown md
        ''<p>Return the sum of two integers.</p><p><strong>Example:</strong></p><pre>1 2</pre'',
      html_to_markdown md ''Example:</strong></p><pre>1 2</pre'',
      None)"
  by (simp add: parse_content_def py_find_def example_one_marker_def example_two_marker_def
      follow_up_marker_def py_slice_def py_slice_to_def py_slice_from_def slice_bound_def)

subsection \<open>Newlines\<close>

lemma collapse_pair:
  "re_sub_from (literal [newline, newline]) (\<lambda>g. [newline]) 0 (newline # newline # r)
     = newline # re_sub_from (literal [newline, newline]) (\<lambda>g. [newline]) 0 r"
  by (simp add: literal_def)

lemma collapse_other:
  "\<not> (a = newline \<and> prefix [newline] r) \<Longrightarrow>
   re_sub_from (literal [newline, newline]) (\<lambda>g. [newline]) 0 (a # r)
     = a # re_sub_from (literal [newline, newline]) (\<lambda>g. [newline]) 0 r"
  by (cases r) (auto simp add: literal_def)

lemma collapse_head:
  "prefix [c] (re_sub_from (literal [newline, newline]) (\<lambda>g. [newline]) 0 s) = prefix [c] s"
proof (cases s)
  case Nil
  then show ?thesis by simp
next
  case (Cons a r)
  show ?thesis
  proof (cases "a = newline \<and> prefix [newline] r")
    case True
    then obtain r' where "r = newline # r'" by (cases r) auto
    with True Cons show ?thesis by (simp add: collapse_pair del: re_sub_from.simps)
  next
    case False
    with Cons show ?thesis by (simp add: collapse_other del: re_sub_from.simps)
  qed
qed

lemma sublist_pair_Cons:
  "sublist [a, b] (x # xs) = (x = a \<and> prefix [b] xs \<or> sublist [a, b] xs)"
  by (cases xs) (auto simp add: sublist_Cons_right)

lemma sublist_triple_Cons:
  "sublist [a, b, c] (x # xs) = (x = a \<and> prefix [b, c] xs \<or> sublist [a, b, c] xs)"
  by (cases xs) (auto simp add: sublist_Cons_right)

lemma collapse_double:
  "sublist [newline, newline] (re_sub_from (literal [newline, newline]) (\<lambda>g. [newline]) 0 s)
     = sublist [newline, newline, newline] s"
proof (induction s rule: induct_list012)
  case 1
  then show ?case by simp
next
  case (2 x)
  then show ?case by (simp add: literal_def sublist_Cons_right)
next
  case (3 x y zs)
  show ?case
  proof (cases "x = newline \<and> y = newline")
    case True
    then show ?thesis
      using 3 by (cases zs)
        (auto simp add: collapse_pair sublist_pair_Cons sublist_triple_Cons collapse_head
           simp del: re_sub_from.simps)
  next
    case False
    then have "\<not> (x = newline \<and> prefix [newline] (y # zs))" by auto
    then show ?thesis
      using 3 False
      by (auto simp add: collapse_other sublist_pair_Cons sublist_triple_Cons collapse_head
            simp del: re_sub_from.simps)
  qed
qed

text \<open>
  C9, as the code has it. The last substitution replaces each pair of newlines by
  one newline in a single scan from the left, so a run of three newlines leaves two:
  the output of \<^verbatim>\<open>html_to_markdown\<close> holds two consecutive newlines exactly when the
  text that the converter returned holds three consecutive newlines.
\<close>

theorem double_newline_iff_triple:
  "sublist [newline, newline] (html_to_markdown md html)
   = sublist [newline, newline, newline] (md (converter_input html))"
  by (simp add: html_to_markdown_def re_sub_def collapse_double)

text \<open>
  C9, as stated, fails. A \<^verbatim>\<open>pre\<close> block with three newlines between two lines
  reaches the converter unchanged; a converter that copies the text of the block, here
  one that copies everything, returns the three newlines, and the output holds two.
\<close>

theorem double_newline_survives:
  "sublist [newline, newline]
     (html_to_markdown id (''<pre>a'' @ [newline, newline, newline] @ ''b</pre>''))"
  by (simp add: html_to_markdown_def converter_input_def re_sub_def subsitutions_def literal_def
      match_code_block_def match_img_def match_style_def flatten_markup_def replace_def
      newline_def sublist_Cons_right)


subsection \<open>Markup and entities\<close>

text \<open>
  What the substitutions leave for the converter: inside a \<^verbatim>\<open>pre\<close> block the bold
  tags are deleted and the \<^verbatim>\<open>i\<close> tags are not, and an image tag without a
  \<^verbatim>\<open>src\<close> attribute is no match of the image pattern.
\<close>

lemma converter_input_keeps:
  "converter_input ''<pre><b>x</b> <i>y</i></pre>'' = ''<pre>x <i>y</i></pre>''"
  "converter_input ''<img alt=x>'' = ''<img alt=x>''"
  by (simp_all add: converter_input_def re_sub_def subsitutions_def literal_def
      match_code_block_def match_img_def match_style_def flatten_markup_def replace_def)











subsection \<open>Premium questions\<close>

lemma read_question_paid:
  assumes "read_question e response_data = Inr f"
    and "bindE (getitem response_data ''data'') (\<lambda>d.
         bindE (getitem d ''question'') (\<lambda>q. getitem q ''isPaidOnly'')) = Inr paid"
    and "truthy paid"
  shows "f_is_paid_only f = paid \<and> f_content f = JStr []"
  using assms by (auto simp: read_question_def bindE_def split: sum.splits if_splits)

text \<open>
  C7. For a response with status 200 whose question is marked paid-only, the
  \<^verbatim>\<open>QuestionInfo\<close> that \<^verbatim>\<open>fetch_question_info\<close> returns has the paid-only mark as
  \<^verbatim>\<open>premium\<close>, an empty description and first example, no follow-up and no rating.
  The content is taken as the empty string, so the two texts are what the converter
  makes of the empty document, which is the empty text.
\<close>

theorem premium_question_info:
  assumes ok: "status resp = 200"
    and body: "json_body resp = Inr response_data"
    and paid: "bindE (getitem response_data ''data'') (\<lambda>d.
               bindE (getitem d ''question'') (\<lambda>q. getitem q ''isPaidOnly'')) = Inr paid"
    and marked: "truthy paid"
    and result: "fetch_question_info e resp slug = (evs, Inr (Some info))"
    and conv: "markdownify e [] = []"
  shows "premium info = paid \<and> truthy (premium info) \<and> description info = [] \<and>
         example_one info = [] \<and> follow_up info = None \<and> question_rating info = None"
proof -
  from result ok body obtain f where f: "read_question e response_data = Inr f"
    and built: "build_question_info e slug f = Inr (Some info)"
    by (auto simp: fetch_question_info_def split: sum.splits if_splits)
  from read_question_paid [OF f paid marked]
  have p: "f_is_paid_only f = paid" and c: "f_content f = JStr []" by simp_all
  have r: "lookup_rating e f = Inr None"
    using p marked by (simp add: lookup_rating_def)
  have pc: "parse_content_of e (f_content f) = Inr ([], [], None)"
    using c conv by (simp add: parse_content_of_def parse_content_empty html_to_markdown_empty)
  from built r pc p marked show ?thesis
    by (auto simp: build_question_info_def bindE_def)
qed

theorem premium_question_info_witness:
  "fetch_question_info sample_env \<lparr>status = 200, json_body = Inr sample_premium\<rparr>
     ''binary-tree-upside-down'' = ([Logger_info], Inr (Some sample_premium_info))
   \<and> markdownify sample_env [] = []
   \<and> premium sample_premium_info = JBool True
   \<and> description sample_premium_info = []
   \<and> example_one sample_premium_info = []
   \<and> follow_up sample_premium_info = None
   \<and> question_rating sample_premium_info = None"
proof -
  let ?resp = "\<lparr>status = 200, json_body = Inr sample_premium\<rparr>"
  have h1: "status ?resp = 200" by simp
  have h2: "json_body ?resp = Inr sample_premium" by simp
  have h3: "bindE (getitem sample_premium ''data'') (\<lambda>d.
            bindE (getitem d ''question'') (\<lambda>q. getitem q ''isPaidOnly'')) = Inr (JBool True)"
    by (simp add: sample_premium_def bindE_def)
  have h4: "truthy (JBool True)" by simp
  have h5: "fetch_question_info sample_env ?resp ''binary-tree-upside-down''
              = ([Logger_info], Inr (Some sample_premium_info))"
    by (simp add: fetch_question_info_def read_question_def bindE_def sample_premium_def
        sample_env_def ast_literal_eval_def build_question_info_def lookup_rating_def
        parse_content_of_def parse_content_empty html_to_markdown_empty sample_stats_def
        sample_premium_info_def)
  have h6: "markdownify sample_env [] = []" by (simp add: sample_env_def)
  from premium_question_info [OF h1 h2 h3 h4 h5 h6] h5 h6 show ?thesis by simp
qed

subsection \<open>Rate limit and retry\<close>

lemma on_exception_retries:
  assumes "\<forall>k<n. snd (target (backend (i + k))) = Inl exc"
      and "snd (target (backend (i + n))) \<noteq> Inl exc"
  shows "on_exception w exc target backend i tr =
           Some (tr @ concat (map (\<lambda>k. fst (target (backend k)) @ [Backoff_wait (w k)]) [i..<i + n])
                   @ fst (target (backend (i + n))),
                 snd (target (backend (i + n))), Suc (i + n))"
  using assms
proof (induction n arbitrary: i tr)
  case 0
  then show ?case by (subst on_exception.simps) simp
next
  case (Suc n)
  from Suc.prems(1) have first: "snd (target (backend i)) = Inl exc" by force
  have rest: "\<forall>k<n. snd (target (backend (Suc i + k))) = Inl exc"
    using Suc.prems(1) by (metis add_Suc_shift Suc_less_eq)
  have last: "snd (target (backend (Suc i + n))) \<noteq> Inl exc"
    using Suc.prems(2) by simp
  have "on_exception w exc target backend i tr =
        on_exception w exc target backend (Suc i)
          (tr @ fst (target (backend i)) @ [Backoff_wait (w i)])"
    by (subst on_exception.simps) (simp add: first)
  also note Suc.IH [OF rest last]
  finally show ?case by (simp add: upt_conv_Cons del: upt_Suc)
qed

lemma on_exception_result:
  assumes "on_exception w exc target backend i tr = Some r"
  shows "i < snd (snd r) \<and> fst (snd r) = snd (target (backend (snd (snd r) - 1))) \<and>
         fst (snd r) \<noteq> Inl exc"
proof (rule on_exception.raw_induct
    [where P = "\<lambda>w exc target backend i tr r.
       i < snd (snd r) \<and> fst (snd r) = snd (target (backend (snd (snd r) - 1))) \<and>
       fst (snd r) \<noteq> Inl exc",
     OF _ assms])
  fix f w exc target backend i tr r
  assume IH: "\<And>w exc target backend i tr r. f w exc target backend i tr = Some r \<Longrightarrow>
       i < snd (snd r) \<and> fst (snd r) = snd (target (backend (snd (snd r) - 1))) \<and>
       fst (snd r) \<noteq> Inl exc"
    and step: "(if snd (target (backend i)) = Inl exc
      then f w exc target backend (Suc i) (tr @ fst (target (backend i)) @ [Backoff_wait (w i)])
      else Some (tr @ fst (target (backend i)), snd (target (backend i)), Suc i))
      = Some (r :: event list \<times> (exn + 'a) \<times> nat)"
  show "i < snd (snd r) \<and> fst (snd r) = snd (target (backend (snd (snd r) - 1))) \<and>
        fst (snd r) \<noteq> Inl exc"
  proof (cases "snd (target (backend i)) = Inl exc")
    case True
    with step
    have "f w exc target backend (Suc i) (tr @ fst (target (backend i)) @ [Backoff_wait (w i)])
            = Some r"
      by simp
    from IH [OF this] show ?thesis by auto
  next
    case False
    with step show ?thesis by auto
  qed
qed

lemma attempt_429:
  "status resp = 429 \<Longrightarrow> fetch_attempt e resp = ([Channel_rate_limited], Inl RateLimitReached)"
  by (simp add: fetch_attempt_def)

lemma attempt_403:
  "status resp = 403 \<Longrightarrow> fetch_attempt e resp = ([Logger_exception, Channel_forbidden], Inr None)"
  by (simp add: fetch_attempt_def)

lemma retried_until_answered:
  assumes limited: "\<forall>k<n. status (backend k) = 429"
    and last: "fetch_attempt e (backend n) = (evs, res)"
    and other: "res \<noteq> Inl RateLimitReached"
  shows "fetch_problems_solved_and_rank e backend =
     Some (concat (map (\<lambda>k. [Channel_rate_limited, Backoff_wait (2 ^ k)]) [0..<n]) @ evs,
           res, Suc n)"
proof -
  have a: "\<forall>k<n. snd (fetch_attempt e (backend (0 + k))) = Inl RateLimitReached"
    using limited by (simp add: attempt_429)
  have b: "snd (fetch_attempt e (backend (0 + n))) \<noteq> Inl RateLimitReached"
    using last other by simp
  have c: "map (\<lambda>k. fst (fetch_attempt e (backend k)) @ [Backoff_wait (expo k)]) [0..<n]
         = map (\<lambda>k. [Channel_rate_limited, Backoff_wait (2 ^ k)]) [0..<n]"
    using limited by (simp add: attempt_429 expo_def)
  show ?thesis
    unfolding fetch_problems_solved_and_rank_def
    using on_exception_retries [OF a b, of expo "[]"] last c by simp
qed

lemma next_count_listed:
  "map (\<lambda>item. (getitem item ''difficulty'', getitem item ''count'')) items
     = map (\<lambda>(dn, c). (Inr (JStr dn), Inr c)) entries \<Longrightarrow>
   next_count dn items = Inr (listed_count entries dn)"
proof (induction items arbitrary: entries)
  case Nil
  then show ?case by (simp add: listed_count_def)
next
  case (Cons item items)
  then obtain e es where es: "entries = e # es" by (cases entries) auto
  obtain dn' c where e: "e = (dn', c)" by (cases e)
  from Cons.prems es e have hd: "getitem item ''difficulty'' = Inr (JStr dn')"
    "getitem item ''count'' = Inr c"
    and tl: "map (\<lambda>item. (getitem item ''difficulty'', getitem item ''count'')) items
     = map (\<lambda>(dn, c). (Inr (JStr dn), Inr c)) es" by simp_all
  from Cons.IH [OF tl] hd es e show ?case
    by (auto simp add: bindE_def listed_count_def)
qed

lemma read_user_listed:
  assumes d: "getitem payload ''data'' = Inr d"
    and u: "getitem d ''matchedUser'' = Inr u"
    and p: "getitem u ''profile'' = Inr p"
    and nm: "getitem p ''realName'' = Inr name"
    and g: "getitem u ''submitStatsGlobal'' = Inr g"
    and ac: "getitem g ''acSubmissionNum'' = Inr (JList items)"
    and entries: "map (\<lambda>item. (getitem item ''difficulty'', getitem item ''count'')) items
                  = map (\<lambda>(dn, c). (Inr (JStr dn), Inr c)) entries"
  shows "read_user payload = Inr (Some (name, listed_count entries ''Easy'',
           listed_count entries ''Medium'', listed_count entries ''Hard''))"
proof -
  from p have "truthy u" by (cases u) auto
  with assms show ?thesis
    by (simp add: read_user_def bindE_def count_of_def next_count_listed [OF entries])
qed

text \<open>
  C5. On status 429 the body raises \<open>RateLimitReached\<close> (\<open>attempt_429\<close>) and the
  decorator calls it again, after a wait whose bound doubles each time, with no limit
  on the number of calls. Let the backend answer 429 to the first \<open>n\<close> requests and then
  200 with a payload that holds a matched user: a profile with the real name
  \<open>name\<close>, and a list \<^verbatim>\<open>acSubmissionNum\<close> whose items hold the difficulty names and
  counts \<open>entries\<close>. Then the call returns, after \<open>n + 1\<close> requests, the
  \<^verbatim>\<open>UserStats\<close> with that name, with the counts listed for \<^verbatim>\<open>Easy\<close>, \<^verbatim>\<open>Medium\<close>
  and \<^verbatim>\<open>Hard\<close> (0 where none is listed) and with the score of these three counts; no
  exception reaches the caller. The claim is the case \<open>n = 1\<close>.
\<close>

theorem rate_limited_then_ok:
  assumes limited: "\<forall>k<n. status (backend k) = 429"
    and ok: "status (backend n) = 200"
    and body: "json_body (backend n) = Inr payload"
    and d: "getitem payload ''data'' = Inr d"
    and u: "getitem d ''matchedUser'' = Inr u"
    and p: "getitem u ''profile'' = Inr p"
    and nm: "getitem p ''realName'' = Inr name"
    and g: "getitem u ''submitStatsGlobal'' = Inr g"
    and ac: "getitem g ''acSubmissionNum'' = Inr (JList items)"
    and entries: "map (\<lambda>item. (getitem item ''difficulty'', getitem item ''count'')) items
                  = map (\<lambda>(dn, c). (Inr (JStr dn), Inr c)) entries"
    and sc: "convert_to_score e (listed_count entries ''Easy'') (listed_count entries ''Medium'')
               (listed_count entries ''Hard'') = Inr sc"
  shows "fetch_problems_solved_and_rank e backend =
     Some (concat (map (\<lambda>k. [Channel_rate_limited, Backoff_wait (2 ^ k)]) [0..<n]) @ [Sleep_random],
           Inr (Some \<lparr>real_name = name,
                      submissions = \<lparr>easy = listed_count entries ''Easy'',
                                      medium = listed_count entries ''Medium'',
                                      hard = listed_count entries ''Hard'',
                                      score = sc\<rparr>\<rparr>),
           Suc n)"
proof -
  let ?us = "\<lparr>real_name = name,
              submissions = \<lparr>easy = listed_count entries ''Easy'',
                              medium = listed_count entries ''Medium'',
                              hard = listed_count entries ''Hard'', score = sc\<rparr>\<rparr>"
  have user: "read_user payload = Inr (Some (name, listed_count entries ''Easy'',
           listed_count entries ''Medium'', listed_count entries ''Hard''))"
    by (rule read_user_listed [OF d u p nm g ac entries])
  have last: "fetch_attempt e (backend n) = ([Sleep_random], Inr (Some ?us))"
    using ok body user sc by (simp add: fetch_attempt_def build_user_stats_def bindE_def)
  show ?thesis
    by (rule retried_until_answered [OF limited last]) simp
qed

theorem rate_limited_then_ok_witness:
  "status (sample_backend 0) = 429 \<and> status (sample_backend 1) = 200
   \<and> json_body (sample_backend 1) = Inr sample_user
   \<and> fetch_problems_solved_and_rank sample_env sample_backend =
       Some ([Channel_rate_limited, Backoff_wait 1, Sleep_random],
             Inr (Some \<lparr>real_name = JStr ''Ada'',
                        submissions = \<lparr>easy = JInt 2, medium = JInt 1, hard = JInt 0, score = 5\<rparr>\<rparr>),
             2)"
proof -
  let ?items = "[JObj [(''difficulty'', JStr ''All''), (''count'', JInt 3)],
                 JObj [(''difficulty'', JStr ''Easy''), (''count'', JInt 2)],
                 JObj [(''difficulty'', JStr ''Medium''), (''count'', JInt 1)]]"
  let ?entries = "[(''All'', JInt 3), (''Easy'', JInt 2), (''Medium'', JInt 1)]"
  let ?g = "JObj [(''acSubmissionNum'', JList ?items)]"
  let ?p = "JObj [(''realName'', JStr ''Ada'')]"
  let ?u = "JObj [(''profile'', ?p), (''submitStatsGlobal'', ?g)]"
  let ?d = "JObj [(''matchedUser'', ?u)]"
  have h0: "status (sample_backend 0) = 429" by (simp add: sample_backend_def)
  then have h1: "\<forall>k<1. status (sample_backend k) = 429" by simp
  have h2: "status (sample_backend 1) = 200" by (simp add: sample_backend_def)
  have h3: "json_body (sample_backend 1) = Inr sample_user" by (simp add: sample_backend_def)
  have h4: "getitem sample_user ''data'' = Inr ?d" by (simp add: sample_user_def)
  have h5: "getitem ?d ''matchedUser'' = Inr ?u" by simp
  have h6: "getitem ?u ''profile'' = Inr ?p" by simp
  have h7: "getitem ?p ''realName'' = Inr (JStr ''Ada'')" by simp
  have h8: "getitem ?u ''submitStatsGlobal'' = Inr ?g" by simp
  have h9: "getitem ?g ''acSubmissionNum'' = Inr (JList ?items)" by simp
  have h10: "map (\<lambda>item. (getitem item ''difficulty'', getitem item ''count'')) ?items
               = map (\<lambda>(dn, c). (Inr (JStr dn), Inr c)) ?entries" by simp
  have h11: "convert_to_score sample_env (listed_count ?entries ''Easy'')
               (listed_count ?entries ''Medium'') (listed_count ?entries ''Hard'') = Inr 5"
    by (simp add: sample_env_def listed_count_def)
  from rate_limited_then_ok [OF h1 h2 h3 h4 h5 h6 h7 h8 h9 h10 h11] h0 h2 h3
  show ?thesis by (simp add: listed_count_def)
qed

text \<open>
  C6. On status 403 the body logs, signals the forbidden condition on the channel
  logger and returns \<^verbatim>\<open>None\<close>; the decorator does not call it again, so the call
  ends after exactly one request.
\<close>

theorem forbidden_not_retried:
  "status (backend 0) = 403 \<Longrightarrow>
   fetch_problems_solved_and_rank e backend =
     Some ([Logger_exception, Channel_forbidden], Inr None, 1)"
  unfolding fetch_problems_solved_and_rank_def
  by (subst on_exception.simps) (simp add: attempt_403)

theorem forbidden_not_retried_witness:
  "status (sample_forbidden_backend 0) = 403
   \<and> fetch_problems_solved_and_rank sample_env sample_forbidden_backend =
       Some ([Logger_exception, Channel_forbidden], Inr None, 1)"
proof -
  have h: "status (sample_forbidden_backend 0) = 403" by (simp add: sample_forbidden_backend_def)
  from forbidden_not_retried [of sample_forbidden_backend sample_env, OF h] h show ?thesis by simp
qed

subsection \<open>Counts and score\<close>

lemma next_count_default:
  "\<forall>item\<in>set items. getitem item ''difficulty'' \<noteq> Inr (JStr name) \<Longrightarrow>
   next_count name items = Inr c \<Longrightarrow> c = JInt 0"
  by (induction items) (auto simp: bindE_def split: sum.splits if_splits)

lemma count_of_default:
  "\<forall>item\<in>set items. getitem item ''difficulty'' \<noteq> Inr (JStr name) \<Longrightarrow>
   count_of name (JList items) = Inr c \<Longrightarrow> c = JInt 0"
  by (simp add: count_of_def bindE_def next_count_default)

lemma read_user_counts:
  assumes "read_user response_data = Inr (Some (name, ec, mc, hc))"
    and "bindE (getitem response_data ''data'') (\<lambda>d. bindE (getitem d ''matchedUser'') (\<lambda>u.
           bindE (getitem u ''submitStatsGlobal'') (\<lambda>g. getitem g ''acSubmissionNum''))) = Inr ac"
  shows "count_of ''Easy'' ac = Inr ec \<and> count_of ''Medium'' ac = Inr mc \<and>
         count_of ''Hard'' ac = Inr hc"
  using assms by (auto simp: read_user_def bindE_def split: sum.splits if_splits)

lemma fetch_attempt_stats:
  assumes "fetch_attempt e resp = (evs, Inr (Some us))"
  shows "status resp = 200 \<and> (\<exists>response_data counts. json_body resp = Inr response_data \<and>
           read_user response_data = Inr (Some counts) \<and>
           build_user_stats e counts = Inr (Some us))"
  using assms by (auto simp: fetch_attempt_def split: sum.splits if_splits option.splits)

lemma build_user_stats_fields:
  assumes "build_user_stats e (name, ec, mc, hc) = Inr (Some us)"
  shows "real_name us = name \<and> easy (submissions us) = ec \<and> medium (submissions us) = mc \<and>
         hard (submissions us) = hc \<and>
         convert_to_score e ec mc hc = Inr (score (submissions us))"
  using assms by (auto simp: build_user_stats_def bindE_def split: sum.splits)

text \<open>
  C10. Let a call return a \<^verbatim>\<open>UserStats\<close>, and let the body of the last response, the
  one it was derived from, hold the list \<^verbatim>\<open>acSubmissionNum\<close>. If no entry of the list
  has the difficulty \<^verbatim>\<open>Easy\<close>, the count \<^verbatim>\<open>easy\<close> of the result is 0, and likewise
  for \<^verbatim>\<open>Medium\<close> and \<^verbatim>\<open>Hard\<close>; the score of the result is the scoring function
  applied to the three counts of the result. That last response has status 200.
\<close>

theorem missing_count_defaults_to_zero:
  assumes result: "fetch_problems_solved_and_rank e backend = Some (evs, Inr (Some us), m)"
    and body: "json_body (backend (m - 1)) = Inr response_data"
    and path: "bindE (getitem response_data ''data'') (\<lambda>d. bindE (getitem d ''matchedUser'') (\<lambda>u.
           bindE (getitem u ''submitStatsGlobal'') (\<lambda>g. getitem g ''acSubmissionNum'')))
           = Inr (JList items)"
  shows "status (backend (m - 1)) = 200
       \<and> ((\<forall>item\<in>set items. getitem item ''difficulty'' \<noteq> Inr (JStr ''Easy''))
            \<longrightarrow> easy (submissions us) = JInt 0)
       \<and> ((\<forall>item\<in>set items. getitem item ''difficulty'' \<noteq> Inr (JStr ''Medium''))
            \<longrightarrow> medium (submissions us) = JInt 0)
       \<and> ((\<forall>item\<in>set items. getitem item ''difficulty'' \<noteq> Inr (JStr ''Hard''))
            \<longrightarrow> hard (submissions us) = JInt 0)
       \<and> convert_to_score e (easy (submissions us)) (medium (submissions us))
            (hard (submissions us)) = Inr (score (submissions us))"
proof -
  from on_exception_result [OF result [unfolded fetch_problems_solved_and_rank_def]]
  have "snd (fetch_attempt e (backend (m - 1))) = Inr (Some us)" by simp
  then have "fetch_attempt e (backend (m - 1))
               = (fst (fetch_attempt e (backend (m - 1))), Inr (Some us))"
    by (metis prod.collapse)
  from fetch_attempt_stats [OF this] body obtain counts
    where st: "status (backend (m - 1)) = 200"
      and user: "read_user response_data = Inr (Some counts)"
      and built: "build_user_stats e counts = Inr (Some us)" by auto
  obtain name ec mc hc where counts: "counts = (name, ec, mc, hc)" by (cases counts) auto
  from read_user_counts [OF user [unfolded counts] path]
  have cs: "count_of ''Easy'' (JList items) = Inr ec" "count_of ''Medium'' (JList items) = Inr mc"
    "count_of ''Hard'' (JList items) = Inr hc" by simp_all
  from build_user_stats_fields [OF built [unfolded counts]]
  have fs: "easy (submissions us) = ec" "medium (submissions us) = mc"
    "hard (submissions us) = hc"
    "convert_to_score e ec mc hc = Inr (score (submissions us))" by simp_all
  show ?thesis
    using st cs fs count_of_default by metis
qed

theorem missing_count_defaults_to_zero_witness:
  "fetch_problems_solved_and_rank sample_env sample_ok_backend =
     Some ([Sleep_random],
           Inr (Some \<lparr>real_name = JStr ''Bob'',
                      submissions = \<lparr>easy = JInt 0, medium = JInt 0, hard = JInt 0, score = 0\<rparr>\<rparr>),
           1)
   \<and> status (sample_ok_backend 0) = 200
   \<and> convert_to_score sample_env (JInt 0) (JInt 0) (JInt 0) = Inr 0"
proof -
  let ?us = "\<lparr>real_name = JStr ''Bob'',
              submissions = \<lparr>easy = JInt 0, medium = JInt 0, hard = JInt 0, score = 0\<rparr>\<rparr>"
  let ?items = "[JObj [(''difficulty'', JStr ''All''), (''count'', JInt 0)]]"
  have h1: "fetch_problems_solved_and_rank sample_env sample_ok_backend
              = Some ([Sleep_random], Inr (Some ?us), 1)"
    by (simp add: fetch_problems_solved_and_rank_def on_exception.simps fetch_attempt_def
        sample_ok_backend_def sample_new_user_def read_user_def bindE_def count_of_def
        build_user_stats_def sample_env_def)
  have h2: "json_body (sample_ok_backend (1 - 1)) = Inr sample_new_user"
    by (simp add: sample_ok_backend_def)
  have h3: "bindE (getitem sample_new_user ''data'') (\<lambda>d. bindE (getitem d ''matchedUser'') (\<lambda>u.
           bindE (getitem u ''submitStatsGlobal'') (\<lambda>g. getitem g ''acSubmissionNum'')))
           = Inr (JList ?items)"
    by (simp add: sample_new_user_def bindE_def)
  from missing_count_defaults_to_zero [OF h1 h2 h3] h1 show ?thesis by simp
qed

end
